theory Spec2Isabelle
  imports Main "HOL-Library.AList"
begin

section \<open>Python values\<close>

text \<open>
  The values that flow through \<open>metadata_app_utils.py\<close>: the raw texts of the command
  line (\<open>str\<close> or \<open>None\<close>), the contents of a JSON file or schema, and the results of
  coercion. Every Python object outside this universe (a float, a tuple, a set, ...) is a
  \<open>VOther\<close> of the uninterpreted type \<open>pyobj\<close>.
\<close>

typedecl pyobj

datatype pyval =
    VNone
  | VBool bool
  | VInt int
  | VStr string
  | VList "pyval list"
  | VDict "(string \<times> pyval) list"
  | VOther pyobj

datatype pyexc = TypeError | ValueError | KeyError | AttributeError | OSError

text \<open>
  The texts that \<open>log_and_exit\<close> prints, one constructor per format string of the source,
  with the values the format is filled with.
\<close>

datatype message =
    RequiresValue string
      \<comment> \<open>\<open>Parameter '{}' requires a value.\<close>\<close>
  | RequiresOneOf string "pyval list"
      \<comment> \<open>\<open>Parameter '{}' requires one of the following values: {}\<close>\<close>
  | RequiredParameter string
      \<comment> \<open>\<open>'{}' is a required parameter.\<close>\<close>
  | RequiredParameterOneOf string "pyval list"
      \<comment> \<open>\<open>'{}' is a required parameter and must be one of the following values: {}.\<close>\<close>
  | UnexpectedArguments "string list"
      \<comment> \<open>\<open>The following arguments were unexpected: {}\<close>\<close>
  | CantFindOption string
      \<comment> \<open>\<open>Can't find option '{}' in argv!\<close>\<close>

text \<open>
  A run ends early either in \<open>sys.exit\<close> (reached through \<open>log_and_exit\<close>: the message
  printed if any, whether the help was displayed, the exit status) or in an exception
  raised by the interpreter.
\<close>

datatype error =
    SystemExit "message option" bool int
  | Raised pyexc

text \<open>
  The interpreter and library functions the source calls and that are not part of the
  repository. Each is a parameter; \<open>None\<close> is a raised exception. Where a library call
  raises, the model gives the class the call most often raises (\<open>int\<close> and
  \<open>ast.literal_eval\<close> a \<open>ValueError\<close>, \<open>open\<close> an \<open>OSError\<close>); no statement below depends
  on which class it is.
\<close>

record pyenv =
  literal_eval :: "pyval \<Rightarrow> pyval option"       \<comment> \<open>\<open>ast.literal_eval\<close>\<close>
  int_of_str :: "string \<Rightarrow> int option"           \<comment> \<open>\<open>int(s)\<close> on a \<open>str\<close>\<close>
  int_of_obj :: "pyobj \<Rightarrow> int option"            \<comment> \<open>\<open>int(x)\<close> on another object\<close>
  float_of :: "pyval \<Rightarrow> pyobj option"            \<comment> \<open>\<open>float(x)\<close>\<close>
  obj_contains :: "pyobj \<Rightarrow> string \<Rightarrow> bool option" \<comment> \<open>\<open>s in x\<close> on another object\<close>
  str_of :: "pyval \<Rightarrow> string"                    \<comment> \<open>\<open>str(x)\<close> of a list, a dict, another object\<close>
  truthy_obj :: "pyobj \<Rightarrow> bool"                  \<comment> \<open>\<open>bool(x)\<close> on another object\<close>
  eq_obj :: "pyval \<Rightarrow> pyval \<Rightarrow> bool"             \<comment> \<open>\<open>x == y\<close> when one side is not atomic\<close>
  read_json :: "string \<Rightarrow> pyval option"          \<comment> \<open>\<open>json.load(open(filename))\<close>\<close>
  level_name :: "string \<Rightarrow> bool"                 \<comment> \<open>the level names \<open>logging\<close> knows\<close>

fun truthy :: "pyenv \<Rightarrow> pyval \<Rightarrow> bool" where
  "truthy E VNone = False"
| "truthy E (VBool b) = b"
| "truthy E (VInt i) = (i \<noteq> 0)"
| "truthy E (VStr s) = (s \<noteq> [])"
| "truthy E (VList l) = (l \<noteq> [])"
| "truthy E (VDict d) = (d \<noteq> [])"
| "truthy E (VOther x) = truthy_obj E x"

text \<open>
  \<open>x == y\<close>: \<open>bool\<close> is a subclass of \<open>int\<close>, so \<open>True == 1\<close>; \<open>None\<close> and
  strings equal only themselves. Containers and other objects are left to \<open>eq_obj\<close>.
\<close>

fun py_eq :: "pyenv \<Rightarrow> pyval \<Rightarrow> pyval \<Rightarrow> bool" where
  "py_eq E VNone VNone = True"
| "py_eq E VNone (VBool b) = False"
| "py_eq E VNone (VInt j) = False"
| "py_eq E VNone (VStr t) = False"
| "py_eq E (VBool a) VNone = False"
| "py_eq E (VBool a) (VBool b) = (a = b)"
| "py_eq E (VBool a) (VInt j) = ((if a then 1 else 0) = j)"
| "py_eq E (VBool a) (VStr t) = False"
| "py_eq E (VInt i) VNone = False"
| "py_eq E (VInt i) (VBool b) = (i = (if b then 1 else 0))"
| "py_eq E (VInt i) (VInt j) = (i = j)"
| "py_eq E (VInt i) (VStr t) = False"
| "py_eq E (VStr s) VNone = False"
| "py_eq E (VStr s) (VBool b) = False"
| "py_eq E (VStr s) (VInt j) = False"
| "py_eq E (VStr s) (VStr t) = (s = t)"
| "py_eq E x y = eq_obj E x y"

text \<open>\<open>x in xs\<close> for a list \<open>xs\<close> (the identity shortcut of \<open>in\<close> is not modelled).\<close>

definition py_in :: "pyenv \<Rightarrow> pyval \<Rightarrow> pyval list \<Rightarrow> bool" where
  "py_in E x xs = list_ex (py_eq E x) xs"

text \<open>\<open>s in x\<close> for a string \<open>s\<close> of one character, as in \<open>"." in value\<close>.\<close>

fun py_contains :: "pyenv \<Rightarrow> char \<Rightarrow> pyval \<Rightarrow> bool option" where
  "py_contains E c (VStr s) = Some (c \<in> set s)"
| "py_contains E c (VList l) = Some (py_in E (VStr [c]) l)"
| "py_contains E c (VDict d) = Some ([c] \<in> set (map fst d))"
| "py_contains E c (VOther x) = obj_contains E x [c]"
| "py_contains E c v = None"

fun py_int :: "pyenv \<Rightarrow> pyval \<Rightarrow> int option" where
  "py_int E (VInt i) = Some i"
| "py_int E (VBool b) = Some (if b then 1 else 0)"
| "py_int E (VStr s) = int_of_str E s"
| "py_int E (VOther x) = int_of_obj E x"
| "py_int E v = None"

fun digits :: "nat \<Rightarrow> string" where
  "digits n = (if n < 10 then [char_of (48 + n)] else digits (n div 10) @ [char_of (48 + n mod 10)])"

declare digits.simps [simp del]

fun py_str :: "pyenv \<Rightarrow> pyval \<Rightarrow> string" where
  "py_str E VNone = ''None''"
| "py_str E (VBool b) = (if b then ''True'' else ''False'')"
| "py_str E (VInt i) = (if i < 0 then ''-'' @ digits (nat (- i)) else digits (nat i))"
| "py_str E (VStr s) = s"
| "py_str E v = str_of E v"

text \<open>\<open>str.lower\<close> on ASCII letters; other bytes are left as they are.\<close>

definition lower :: "string \<Rightarrow> string" where
  "lower s = map (\<lambda>c. if 65 \<le> (of_char c :: nat) \<and> (of_char c :: nat) \<le> 90 then char_of (of_char c + (32::nat)) else c) s"

section \<open>The option model\<close>

datatype option_class = Option | CliOption | Flag | SchemaProperty | MetadataSchemaProperty

text \<open>
  The fields of class \<open>Option\<close>, with \<open>schema_property\<close> of \<open>SchemaProperty\<close>. \<open>cls\<close> is
  the class of the instance (what \<open>isinstance\<close> reads) and \<open>otype\<close> is the field \<open>type\<close>.
  \<open>set_value_calls\<close> is not a field of the source: it counts the invocations of
  \<open>set_value\<close> on the instance, so that a statement can say that there was none.
\<close>

record opt =
  cls :: option_class
  cli_option :: string
  name :: "string option"
  description :: pyval
  default_value :: pyval
  one_of :: "pyval list option"
  required :: bool
  "value" :: pyval
  otype :: pyval
  processed :: bool
  schema_property :: "pyval option"
  set_value_calls :: nat

text \<open>\<open>Option.__init__\<close>; \<open>processed\<close> keeps the class attribute's \<open>False\<close>.\<close>

definition Option_init ::
  "option_class \<Rightarrow> string \<Rightarrow> string option \<Rightarrow> pyval \<Rightarrow> pyval \<Rightarrow> pyval list option \<Rightarrow> bool \<Rightarrow> pyval \<Rightarrow> opt" where
  "Option_init c cli nm descr dflt oneof req ty =
     \<lparr>cls = c, cli_option = cli, name = nm, description = descr, default_value = dflt,
      one_of = oneof, required = req, value = dflt, otype = ty, processed = False,
      schema_property = None, set_value_calls = 0\<rparr>"

text \<open>\<open>Flag.__init__\<close>: the type is fixed to \<open>boolean\<close>.\<close>

definition Flag_init ::
  "string \<Rightarrow> string option \<Rightarrow> pyval \<Rightarrow> pyval \<Rightarrow> pyval list option \<Rightarrow> bool \<Rightarrow> opt" where
  "Flag_init flag nm descr dflt oneof req =
     Option_init Flag flag nm descr dflt oneof req (VStr ''boolean'')"

definition dict_get :: "(string \<times> pyval) list \<Rightarrow> string \<Rightarrow> pyval" where
  "dict_get d k = (case map_of d k of None \<Rightarrow> VNone | Some v \<Rightarrow> v)"

text \<open>
  \<open>SchemaProperty.__init__\<close> and \<open>MetadataSchemaProperty.__init__\<close> (the class is the
  first argument); \<open>schema_property\<close> is a dict where the compiler calls it.
\<close>

definition SchemaProperty_init :: "option_class \<Rightarrow> string \<Rightarrow> (string \<times> pyval) list \<Rightarrow> opt" where
  "SchemaProperty_init c nm sp =
     (Option_init c (''--'' @ nm) (Some nm) (dict_get sp ''description'')
        (dict_get sp ''default'') None False (dict_get sp ''type''))
     \<lparr>schema_property := Some (VDict sp)\<rparr>"

text \<open>\<open>Option.set_value\<close>, branch by branch.\<close>

definition set_value :: "pyenv \<Rightarrow> pyval \<Rightarrow> opt \<Rightarrow> error + opt" where
  "set_value E v o0 =
    (let self = o0\<lparr>set_value_calls := Suc (set_value_calls o0)\<rparr> in
     if otype self = VStr ''array'' \<or> otype self = VStr ''object'' then
       (case literal_eval E v of
          None \<Rightarrow> Inl (Raised ValueError)
        | Some r \<Rightarrow> Inr (self\<lparr>value := r\<rparr>))
     else if otype self = VStr ''integer'' then
       (case py_int E v of
          None \<Rightarrow> Inl (Raised ValueError)
        | Some i \<Rightarrow> Inr (self\<lparr>value := VInt i\<rparr>))
     else if otype self = VStr ''number'' then
       (case py_contains E CHR ''.'' v of
          None \<Rightarrow> Inl (Raised TypeError)
        | Some True \<Rightarrow>
            (case float_of E v of
               None \<Rightarrow> Inl (Raised ValueError)
             | Some f \<Rightarrow> Inr (self\<lparr>value := VOther f\<rparr>))
        | Some False \<Rightarrow>
            (case py_int E v of
               None \<Rightarrow> Inl (Raised ValueError)
             | Some i \<Rightarrow> Inr (self\<lparr>value := VInt i\<rparr>)))
     else if otype self = VStr ''boolean'' then
       (case v of
          VBool b \<Rightarrow> Inr (self\<lparr>value := v\<rparr>)
        | _ \<Rightarrow>
          if lower (py_str E v) \<in> set [''true'', ''1''] then Inr (self\<lparr>value := VBool True\<rparr>)
          else if lower (py_str E v) \<in> set [''false'', ''0''] then Inr (self\<lparr>value := VBool False\<rparr>)
          else Inr (self\<lparr>value := v\<rparr>))
     else if otype self = VStr ''null'' then
       (if py_str E v \<in> set [''null'', ''None''] then Inr (self\<lparr>value := VNone\<rparr>)
        else Inr (self\<lparr>value := v\<rparr>))
     else Inr (self\<lparr>value := v\<rparr>))"

section \<open>The application state\<close>

text \<open>
  \<open>AppBase\<close>: the argument vector, the argument mapping (a dict, in insertion order) and
  the level of the root logger, which \<open>--debug\<close> and \<open>--log-level\<close> set.
\<close>

record app =
  argv :: "string list"
  argv_mappings :: "(string \<times> pyval) list"
  log_level :: string

definition log_and_exit :: "message option \<Rightarrow> int \<Rightarrow> bool \<Rightarrow> error" where
  "log_and_exit msg exit_status display_help = SystemExit msg display_help exit_status"

definition has_help :: "app \<Rightarrow> bool" where
  "has_help self = (set [''--help'', ''-h''] \<inter> set (map fst (argv_mappings self)) \<noteq> {})"

text \<open>\<open>AppBase._remove_argv_entry\<close>.\<close>

definition remove_argv_entry :: "pyenv \<Rightarrow> app \<Rightarrow> string \<Rightarrow> error + app" where
  "remove_argv_entry E self cli =
    (if cli \<notin> set (map fst (argv_mappings self)) then
       Inl (log_and_exit (Some (CantFindOption cli)) 1 False)
     else
       let v = dict_get (argv_mappings self) cli in
       case (if truthy E v then
               (case v of VStr s \<Rightarrow> Inr (cli @ ''='' @ s) | _ \<Rightarrow> Inl (Raised TypeError))
             else Inr cli) of
         Inl e \<Rightarrow> Inl e
       | Inr entry \<Rightarrow>
           Inr (self\<lparr>argv := (if entry \<in> set (argv self) then remove1 entry (argv self) else argv self),
                     argv_mappings := AList.delete cli (argv_mappings self)\<rparr>))"

text \<open>
  The prefix of the sibling options of a dotted option:
  \<open>option.cli_option.rsplit('.', 1)[0] + '.'\<close>.
\<close>

definition rsplit_head :: "string \<Rightarrow> string" where
  "rsplit_head s =
     (if CHR ''.'' \<in> set s then rev (tl (dropWhile (\<lambda>c. c \<noteq> CHR ''.'') (rev s))) else s)"

definition sub_option_prefix :: "opt \<Rightarrow> string" where
  "sub_option_prefix option = rsplit_head (cli_option option) @ ''.''"

definition startswith :: "string \<Rightarrow> string \<Rightarrow> bool" where
  "startswith s p = (take (length p) s = p)"

text \<open>
  \<open>AppBase.required_value_is_missing\<close>: the answer, and the option, whose \<open>required\<close>
  the method may clear. \<open>'.' not in option.name\<close> raises on a name that is \<open>None\<close>.
\<close>

definition required_value_is_missing :: "app \<Rightarrow> opt \<Rightarrow> error + (bool \<times> opt)" where
  "required_value_is_missing self option =
    (if required option \<and> value option = VNone then
       (case name option of
          None \<Rightarrow> Inl (Raised TypeError)
        | Some n \<Rightarrow>
            if CHR ''.'' \<notin> set n then Inr (True, option)
            else if list_ex (\<lambda>(other_option, other_value).
                       startswith other_option (sub_option_prefix option) \<and> other_value \<noteq> VNone)
                     (argv_mappings self)
            then Inr (True, option)
            else Inr (False, option\<lparr>required := False\<rparr>))
     else Inr (False, option))"

text \<open>
  \<open>AppBase.process_cli_option\<close>. The result is the application and the option after the
  call, or the way the call ended early.
\<close>

definition process_cli_option :: "pyenv \<Rightarrow> bool \<Rightarrow> app \<Rightarrow> opt \<Rightarrow> error + (app \<times> opt)" where
  "process_cli_option E check_help self o0 =
    (if check_help \<and> has_help self then Inl (log_and_exit None 1 True)
     else if processed o0 then Inr (self, o0)
     else
       let option = cli_option o0 in
       if option \<in> set (map fst (argv_mappings self)) then
         (case (if cls o0 = Flag then
                  Inr (o0\<lparr>value := VBool (\<not> truthy E (default_value o0))\<rparr>)
                else
                  (case set_value E (dict_get (argv_mappings self) option) o0 of
                     Inl e \<Rightarrow> Inl e
                   | Inr o1 \<Rightarrow>
                       if required o1 then
                         (if \<not> truthy E (value o1) then
                            Inl (log_and_exit (Some (RequiresValue (cli_option o1))) 1 True)
                          else if (case one_of o1 of None \<Rightarrow> False | Some l \<Rightarrow> l \<noteq> []) then
                            (if \<not> py_in E (value o1) (the (one_of o1)) then
                               Inl (log_and_exit
                                      (Some (RequiresOneOf (cli_option o1) (the (one_of o1)))) 1 True)
                             else Inr o1)
                          else Inr o1)
                       else Inr o1)) of
            Inl e \<Rightarrow> Inl e
          | Inr o2 \<Rightarrow>
              (case remove_argv_entry E self option of
                 Inl e \<Rightarrow> Inl e
               | Inr self' \<Rightarrow> Inr (self', o2\<lparr>processed := True\<rparr>)))
       else
         (case required_value_is_missing self o0 of
            Inl e \<Rightarrow> Inl e
          | Inr (missing, o1) \<Rightarrow>
              if missing then
                (case one_of o1 of
                   None \<Rightarrow> Inl (log_and_exit (Some (RequiredParameter (cli_option o1))) 1 True)
                 | Some l \<Rightarrow>
                     Inl (log_and_exit (Some (RequiredParameterOneOf (cli_option o1) l)) 1 True))
              else Inr (self, o1\<lparr>processed := True\<rparr>)))"

text \<open>
  \<open>AppBase.process_cli_options\<close>: the loop over the options, then the check for what is
  left of the argument vector.
\<close>

fun process_each :: "pyenv \<Rightarrow> app \<Rightarrow> opt list \<Rightarrow> error + (app \<times> opt list)" where
  "process_each E self [] = Inr (self, [])"
| "process_each E self (option # rest) =
     (case process_cli_option E False self option of
        Inl e \<Rightarrow> Inl e
      | Inr (self', option') \<Rightarrow>
          (case process_each E self' rest of
             Inl e \<Rightarrow> Inl e
           | Inr (self'', rest') \<Rightarrow> Inr (self'', option' # rest')))"

definition process_cli_options :: "pyenv \<Rightarrow> app \<Rightarrow> opt list \<Rightarrow> error + (app \<times> opt list)" where
  "process_cli_options E self cli_options =
    (if has_help self then Inl (log_and_exit None 1 True)
     else
       (case process_each E self cli_options of
          Inl e \<Rightarrow> Inl e
        | Inr (self', options') \<Rightarrow>
            if length (argv self') > 0 then
              Inl (log_and_exit (Some (UnexpectedArguments (argv self'))) 1 True)
            else Inr (self', options')))"

section \<open>The argument ingestor\<close>

text \<open>\<open>option, value = arg.split('=', 1)\<close> when \<open>'=' in arg\<close>, and \<open>arg, None\<close> otherwise.\<close>

definition split_arg :: "string \<Rightarrow> string \<times> pyval" where
  "split_arg arg =
     (if CHR ''='' \<in> set arg then
        (takeWhile (\<lambda>c. c \<noteq> CHR ''='') arg, VStr (tl (dropWhile (\<lambda>c. c \<noteq> CHR ''='') arg)))
      else (arg, VNone))"

text \<open>\<open>os.path.basename\<close> on a POSIX path.\<close>

definition basename :: "string \<Rightarrow> string" where
  "basename p = rev (takeWhile (\<lambda>c. c \<noteq> CHR ''/'') (rev p))"

text \<open>
  \<open>AppBase.load_argv_mappings_from_json\<close>, as a loop over the items of \<open>json_data\<close>. The
  \<open>return\<close> in the branch of a dict-valued item leaves the loop: the items after it are
  not visited.
\<close>

fun load_argv_mappings_from_json ::
  "(string \<times> pyval) list \<Rightarrow> string option \<Rightarrow> (string \<times> pyval) list \<Rightarrow> error + (string \<times> pyval) list" where
  "load_argv_mappings_from_json [] prefix mappings = Inr mappings"
| "load_argv_mappings_from_json ((k, v) # items) prefix mappings =
     (let prefixed_name =
            (if k \<noteq> ''metadata'' then
               Some (case prefix of
                       None \<Rightarrow> k
                     | Some p \<Rightarrow> if p \<noteq> [] then p @ ''.'' @ k else k)
             else None)
      in case v of
           VDict d \<Rightarrow> load_argv_mappings_from_json d prefixed_name mappings
         | _ \<Rightarrow>
             (case prefixed_name of
                None \<Rightarrow> Inl (Raised TypeError)
              | Some n \<Rightarrow>
                  load_argv_mappings_from_json items prefix (AList.update (''--'' @ n) v mappings)))"

text \<open>
  \<open>AppBase.load_argv_mappings_from_file\<close>. \<open>read_json\<close> stands for opening the file and
  \<open>json.load\<close>; \<open>.items()\<close> raises on what is not a dict.
\<close>

definition load_argv_mappings_from_file ::
  "pyenv \<Rightarrow> pyval \<Rightarrow> (string \<times> pyval) list \<Rightarrow> error + (string \<times> pyval) list" where
  "load_argv_mappings_from_file E filename mappings =
     (case filename of
        VStr fn \<Rightarrow>
          (case read_json E fn of
             None \<Rightarrow> Inl (Raised OSError)
           | Some md_json \<Rightarrow>
               (case md_json of
                  VDict d \<Rightarrow>
                    load_argv_mappings_from_json d None
                      (AList.update ''--name''
                         (VStr (takeWhile (\<lambda>c. c \<noteq> CHR ''.'') (basename fn))) mappings)
                | _ \<Rightarrow> Inl (Raised AttributeError)))
      | _ \<Rightarrow> Inl (Raised TypeError))"

text \<open>
  The loop of \<open>AppBase._get_argv_mappings\<close> over \<open>self.argv\<close>, with its two local
  variables \<open>log_option\<close> and \<open>file_option\<close>. \<open>setLevel\<close> raises on a level that is not
  a known name.
\<close>

fun scan_argv ::
  "pyenv \<Rightarrow> string list \<Rightarrow> app \<Rightarrow> string option \<Rightarrow> string option
     \<Rightarrow> error + (app \<times> string option \<times> string option)" where
  "scan_argv E [] self log_option file_option = Inr (self, log_option, file_option)"
| "scan_argv E (arg # args) self log_option file_option =
     (let option = fst (split_arg arg); v = snd (split_arg arg) in
      if option = ''--debug'' then
        scan_argv E args (self\<lparr>log_level := ''DEBUG''\<rparr>) (Some arg) file_option
      else if option = ''--log-level'' then
        (case v of
           VStr l \<Rightarrow>
             if level_name E l then scan_argv E args (self\<lparr>log_level := l\<rparr>) (Some arg) file_option
             else Inl (Raised ValueError)
         | _ \<Rightarrow> Inl (Raised TypeError))
      else if option = ''--file'' then
        (case load_argv_mappings_from_file E v (argv_mappings self) of
           Inl e \<Rightarrow> Inl e
         | Inr m \<Rightarrow> scan_argv E args (self\<lparr>argv_mappings := m\<rparr>) log_option (Some arg))
      else
        scan_argv E args (self\<lparr>argv_mappings := AList.update option v (argv_mappings self)\<rparr>)
          log_option file_option)"

text \<open>
  \<open>AppBase._get_argv_mappings\<close>: the loop, then the removal from \<open>self.argv\<close> of the one
  token each local variable holds (\<open>list.remove\<close> deletes the first occurrence).
\<close>

definition get_argv_mappings :: "pyenv \<Rightarrow> app \<Rightarrow> error + app" where
  "get_argv_mappings E self =
     (case scan_argv E (argv self) self None None of
        Inl e \<Rightarrow> Inl e
      | Inr (self1, log_option, file_option) \<Rightarrow>
          let argv1 = (case log_option of
                         None \<Rightarrow> argv self1
                       | Some l \<Rightarrow> if l \<noteq> [] then remove1 l (argv self1) else argv self1);
              argv2 = (case file_option of
                         None \<Rightarrow> argv1
                       | Some f \<Rightarrow> if f \<noteq> [] then remove1 f argv1 else argv1)
          in Inr (self1\<lparr>argv := argv2\<rparr>))"

text \<open>
  \<open>AppBase.__init__\<close> of the first instance of a process: the class attribute
  \<open>argv_mappings\<close> is still empty and the root logger is at the level of \<open>basicConfig\<close>.
\<close>

definition AppBase_init :: "pyenv \<Rightarrow> string list \<Rightarrow> error + app" where
  "AppBase_init E args = get_argv_mappings E \<lparr>argv = args, argv_mappings = [], log_level = ''INFO''\<rparr>"

section \<open>The schema compiler\<close>







section \<open>A concrete interpreter\<close>

text \<open>
  An interpreter for the concrete runs below: every library call raises, the file system
  holds \<open>meta.json\<close> with the content \<open>{"metadata": {"count": 3}, "display_name": "x"}\<close>,
  and \<open>logging\<close> knows its standard level names.
\<close>

definition env0 :: pyenv where
  "env0 =
     \<lparr>literal_eval = (\<lambda>v. None), int_of_str = (\<lambda>s. None), int_of_obj = (\<lambda>x. None),
      float_of = (\<lambda>v. None), obj_contains = (\<lambda>x s. None), str_of = (\<lambda>v. []),
      truthy_obj = (\<lambda>x. True), eq_obj = (\<lambda>x y. False),
      read_json = (\<lambda>fn. if fn = ''meta.json'' then
                            Some (VDict [(''metadata'', VDict [(''count'', VInt 3)]),
                                         (''display_name'', VStr ''x'')])
                          else None),
      level_name = (\<lambda>l. l \<in> set [''CRITICAL'', ''FATAL'', ''ERROR'', ''WARN'', ''WARNING'',
                                    ''INFO'', ''DEBUG'', ''NOTSET''])\<rparr>"

section \<open>The option resolver: one option\<close>

lemma has_help_delete: "has_help (self\<lparr>argv := a, argv_mappings := AList.delete k (argv_mappings self)\<rparr>) \<Longrightarrow> has_help self"
  by (auto simp: has_help_def AList.delete_eq)

lemma remove_argv_entry_Inr:
  assumes "remove_argv_entry E self k = Inr self'"
  shows "argv_mappings self' = AList.delete k (argv_mappings self)"
    and "log_level self' = log_level self"
    and "k \<in> set (map fst (argv_mappings self))"
    and "argv self' = remove1 (case dict_get (argv_mappings self) k of VStr s \<Rightarrow> if s = [] then k else k @ ''='' @ s | _ \<Rightarrow> k) (argv self)"
  using assms
  by (auto simp: remove_argv_entry_def Let_def remove1_idem split: if_splits sum.splits pyval.splits)

lemma remove_has_help: "remove_argv_entry E self k = Inr self' \<Longrightarrow> has_help self' \<Longrightarrow> has_help self"
  by (simp add: has_help_def remove_argv_entry_Inr(1) AList.delete_eq) auto

lemma proc_processed_skip:
  "\<not> (ch \<and> has_help self) \<Longrightarrow> processed o0 \<Longrightarrow> process_cli_option E ch self o0 = Inr (self, o0)"
  by (simp add: process_cli_option_def)

lemma proc_help_exit:
  "ch \<and> has_help self \<Longrightarrow> process_cli_option E ch self o0 = Inl (log_and_exit None 1 True)"
  by (simp add: process_cli_option_def)
lemma proc_processed:
  assumes "process_cli_option E ch self o0 = Inr (s', o')"
  shows "processed o'"
proof (cases "processed o0")
  case True
  then show ?thesis using assms by (simp add: process_cli_option_def split: if_splits)
next
  case False
  then show ?thesis using assms
    by (simp add: process_cli_option_def Let_def split: if_splits sum.splits prod.splits option.splits) auto
qed
lemma proc_help:
  assumes "process_cli_option E ch self o0 = Inr (s', o')" "has_help s'"
  shows "has_help self"
proof (cases "processed o0")
  case True
  then show ?thesis using assms by (simp add: process_cli_option_def split: if_splits)
next
  case False
  then show ?thesis using assms
    by (simp add: process_cli_option_def Let_def split: if_splits sum.splits prod.splits option.splits) (auto dest: remove_has_help)
qed


text \<open>
  C7. Resolving an option twice in succession is the same as resolving it once: when the
  first call returns, it leaves \<open>processed\<close> set and no help token that was not there
  before, so the second call returns the state it was given; when the first call ends
  the run, there is no second call.
\<close>

theorem process_cli_option_idempotent:
  "(case process_cli_option E check_help self option of
      Inl e \<Rightarrow> Inl e
    | Inr (self', option') \<Rightarrow> process_cli_option E check_help self' option')
   = process_cli_option E check_help self option"
proof (cases "process_cli_option E check_help self option")
  case (Inl e)
  then show ?thesis by simp
next
  case (Inr r)
  obtain self' option' where r: "r = (self', option')" by (cases r)
  have run: "process_cli_option E check_help self option = Inr (self', option')"
    using Inr r by simp
  have visited: "processed option'"
    using run by (rule proc_processed)
  have "\<not> (check_help \<and> has_help self)"
    using run by (auto simp: proc_help_exit)
  then have "\<not> (check_help \<and> has_help self')"
    using proc_help[OF run] by blast
  then have "process_cli_option E check_help self' option' = Inr (self', option')"
    using visited by (rule proc_processed_skip)
  then show ?thesis using run by simp
qed

theorem process_cli_option_idempotent_witness:
  "process_cli_option env0 False
     \<lparr>argv = [''--name=foo''], argv_mappings = [(''--name'', VStr ''foo'')], log_level = ''INFO''\<rparr>
     (Option_init CliOption ''--name'' (Some ''name'') VNone VNone None True (VStr ''string''))
   = Inr (\<lparr>argv = [], argv_mappings = [], log_level = ''INFO''\<rparr>,
          (Option_init CliOption ''--name'' (Some ''name'') VNone VNone None True (VStr ''string''))
          \<lparr>value := VStr ''foo'', processed := True, set_value_calls := 1\<rparr>)
   \<and> process_cli_option env0 False \<lparr>argv = [], argv_mappings = [], log_level = ''INFO''\<rparr>
       ((Option_init CliOption ''--name'' (Some ''name'') VNone VNone None True (VStr ''string''))
          \<lparr>value := VStr ''foo'', processed := True, set_value_calls := 1\<rparr>)
   = Inr (\<lparr>argv = [], argv_mappings = [], log_level = ''INFO''\<rparr>,
          (Option_init CliOption ''--name'' (Some ''name'') VNone VNone None True (VStr ''string''))
          \<lparr>value := VStr ''foo'', processed := True, set_value_calls := 1\<rparr>)"
proof -
  have first: "process_cli_option env0 False
     \<lparr>argv = [''--name=foo''], argv_mappings = [(''--name'', VStr ''foo'')], log_level = ''INFO''\<rparr>
     (Option_init CliOption ''--name'' (Some ''name'') VNone VNone None True (VStr ''string''))
   = Inr (\<lparr>argv = [], argv_mappings = [], log_level = ''INFO''\<rparr>,
          (Option_init CliOption ''--name'' (Some ''name'') VNone VNone None True (VStr ''string''))
          \<lparr>value := VStr ''foo'', processed := True, set_value_calls := 1\<rparr>)"
    by (simp add: process_cli_option_def Option_init_def has_help_def set_value_def
        remove_argv_entry_def dict_get_def Let_def)
  show ?thesis
    using first process_cli_option_idempotent [of env0 False
        "\<lparr>argv = [''--name=foo''], argv_mappings = [(''--name'', VStr ''foo'')], log_level = ''INFO''\<rparr>"
        "Option_init CliOption ''--name'' (Some ''name'') VNone VNone None True (VStr ''string'')"]
    by simp
qed

text \<open>
  C10. The missing-required check reads the current value, which \<open>Option.__init__\<close>
  seeds from the default: a required option constructed with a default other than
  \<open>None\<close>, whose token is absent from the mapping, is not reported missing. Its
  resolution succeeds, the value is still the default and \<open>required\<close> still holds.
  And \<open>required_value_is_missing\<close> answers \<open>True\<close> only for a required option whose
  value is \<open>None\<close>.
\<close>

theorem default_value_suppresses_missing_required:
  assumes "dflt \<noteq> VNone"
    and "cli \<notin> set (map fst (argv_mappings self))"
    and "\<not> (check_help \<and> has_help self)"
  shows "required_value_is_missing self (Option_init c cli nm descr dflt oneof True ty)
           = Inr (False, Option_init c cli nm descr dflt oneof True ty)
         \<and> process_cli_option E check_help self (Option_init c cli nm descr dflt oneof True ty)
           = Inr (self, (Option_init c cli nm descr dflt oneof True ty)\<lparr>processed := True\<rparr>)
         \<and> value ((Option_init c cli nm descr dflt oneof True ty)\<lparr>processed := True\<rparr>) = dflt
         \<and> required ((Option_init c cli nm descr dflt oneof True ty)\<lparr>processed := True\<rparr>)
         \<and> (\<forall>app option option'.
               required_value_is_missing app option = Inr (True, option') \<longrightarrow>
               value option = VNone \<and> required option)"
proof -
  let ?o = "Option_init c cli nm descr dflt oneof True ty"
  have fields: "value ?o = dflt" "cli_option ?o = cli" "\<not> processed ?o" "required ?o"
    by (simp_all add: Option_init_def)
  have missing: "required_value_is_missing self ?o = Inr (False, ?o)"
    using assms(1) fields(1) by (simp add: required_value_is_missing_def)
  have run: "process_cli_option E check_help self ?o = Inr (self, ?o\<lparr>processed := True\<rparr>)"
    using assms(2,3) fields(2,3) missing by (simp add: process_cli_option_def Let_def)
  have only: "value option = VNone \<and> required option"
    if "required_value_is_missing app option = Inr (True, option')" for app option option'
    using that by (simp add: required_value_is_missing_def split: if_splits option.splits)
  show ?thesis using missing run fields only by simp
qed

theorem default_value_suppresses_missing_required_witness:
  "VStr ''local'' \<noteq> VNone
   \<and> ''--runtime'' \<notin> set (map fst (argv_mappings \<lparr>argv = [], argv_mappings = [], log_level = ''INFO''\<rparr>))
   \<and> process_cli_option env0 False \<lparr>argv = [], argv_mappings = [], log_level = ''INFO''\<rparr>
        (Option_init CliOption ''--runtime'' (Some ''runtime'') VNone (VStr ''local'') None True (VStr ''string''))
      = Inr (\<lparr>argv = [], argv_mappings = [], log_level = ''INFO''\<rparr>,
             (Option_init CliOption ''--runtime'' (Some ''runtime'') VNone (VStr ''local'') None True (VStr ''string''))
             \<lparr>processed := True\<rparr>)"
  using default_value_suppresses_missing_required [of "VStr ''local''" "''--runtime''"
      "\<lparr>argv = [], argv_mappings = [], log_level = ''INFO''\<rparr>" False CliOption "Some ''runtime''" VNone None
      "VStr ''string''" env0]
  by simp

lemma rsplit_head_dashes:
  assumes "CHR ''.'' \<in> set n"
  shows "rsplit_head (''--'' @ n) = ''--'' @ rsplit_head n"
proof -
  have "dropWhile (\<lambda>c. c \<noteq> CHR ''.'') (rev n @ ''--'')
          = dropWhile (\<lambda>c. c \<noteq> CHR ''.'') (rev n) @ ''--''"
    using assms by (intro dropWhile_append1[of "CHR ''.''"]) auto
  moreover have "dropWhile (\<lambda>c. c \<noteq> CHR ''.'') (rev n) \<noteq> []"
    using assms by (simp add: dropWhile_eq_Nil_conv)
  ultimately show ?thesis
    using assms by (simp add: rsplit_head_def)
qed

text \<open>
  C1. The dotted sub-object exemption. Take an option that is not yet processed, is
  required, has no value, has a name, and whose token is absent from the mapping. If the
  name has a dot and no entry of the mapping whose key starts with the sibling prefix has
  a value other than \<open>None\<close>, resolution succeeds and leaves \<open>required\<close> cleared. In
  every other case (a sibling entry with a value, or a name without a dot) resolution
  ends in the missing-required exit, with the \<open>one_of\<close> detail when the option has one.
  The sibling prefix is computed from the token; for a schema-derived option, whose token
  is \<open>--\<close> followed by the name, it is \<open>--\<close>, the name minus its last segment, and a dot.
\<close>

theorem dotted_sub_object_exemption:
  assumes "\<not> processed option"
    and "\<not> (check_help \<and> has_help self)"
    and "cli_option option \<notin> set (map fst (argv_mappings self))"
    and "required option"
    and "value option = VNone"
    and "name option = Some n"
  shows "process_cli_option E check_help self option =
           (if CHR ''.'' \<in> set n \<and>
               \<not> (\<exists>(k, v) \<in> set (argv_mappings self).
                      startswith k (sub_option_prefix option) \<and> v \<noteq> VNone)
            then Inr (self, option\<lparr>required := False, processed := True\<rparr>)
            else Inl (SystemExit
                        (Some (case one_of option of
                                 None \<Rightarrow> RequiredParameter (cli_option option)
                               | Some l \<Rightarrow> RequiredParameterOneOf (cli_option option) l))
                        True 1))
         \<and> (CHR ''.'' \<in> set n \<and> cli_option option = ''--'' @ n
              \<longrightarrow> sub_option_prefix option = ''--'' @ rsplit_head n @ ''.'')"
proof -
  let ?sibling = "\<exists>(k, v) \<in> set (argv_mappings self).
                      startswith k (sub_option_prefix option) \<and> v \<noteq> VNone"
  have missing: "required_value_is_missing self option =
      (if CHR ''.'' \<in> set n \<and> \<not> ?sibling then Inr (False, option\<lparr>required := False\<rparr>)
       else Inr (True, option))"
    using assms(4,5,6) by (simp add: required_value_is_missing_def list_ex_iff)
  have run: "process_cli_option E check_help self option =
      (case required_value_is_missing self option of
         Inl e \<Rightarrow> Inl e
       | Inr (missing, o1) \<Rightarrow>
           if missing then
             (case one_of o1 of
                None \<Rightarrow> Inl (log_and_exit (Some (RequiredParameter (cli_option o1))) 1 True)
              | Some l \<Rightarrow>
                  Inl (log_and_exit (Some (RequiredParameterOneOf (cli_option o1) l)) 1 True))
           else Inr (self, o1\<lparr>processed := True\<rparr>))"
  proof -
    have nh: "(check_help \<and> has_help self) = False" using assms(2) by simp
    show ?thesis using assms(1,3) by (simp add: process_cli_option_def Let_def nh)
  qed
  have first: "process_cli_option E check_help self option =
           (if CHR ''.'' \<in> set n \<and> \<not> ?sibling
            then Inr (self, option\<lparr>required := False, processed := True\<rparr>)
            else Inl (SystemExit
                        (Some (case one_of option of
                                 None \<Rightarrow> RequiredParameter (cli_option option)
                               | Some l \<Rightarrow> RequiredParameterOneOf (cli_option option) l))
                        True 1))"
    unfolding run missing by (simp add: log_and_exit_def split: option.splits)
  have second: "CHR ''.'' \<in> set n \<and> cli_option option = ''--'' @ n
              \<longrightarrow> sub_option_prefix option = ''--'' @ rsplit_head n @ ''.''"
    using rsplit_head_dashes[of n] by (auto simp: sub_option_prefix_def)
  show ?thesis using first second by blast
qed

theorem dotted_sub_object_exemption_witness:
  "process_cli_option env0 False
     \<lparr>argv = [''--sub.a=5''], argv_mappings = [(''--sub.a'', VStr ''5'')], log_level = ''INFO''\<rparr>
     ((SchemaProperty_init MetadataSchemaProperty ''sub.b'' [(''type'', VStr ''string'')])\<lparr>required := True\<rparr>)
   = Inl (SystemExit (Some (RequiredParameter ''--sub.b'')) True 1)
   \<and> process_cli_option env0 False \<lparr>argv = [], argv_mappings = [], log_level = ''INFO''\<rparr>
     ((SchemaProperty_init MetadataSchemaProperty ''sub.b'' [(''type'', VStr ''string'')])\<lparr>required := True\<rparr>)
   = Inr (\<lparr>argv = [], argv_mappings = [], log_level = ''INFO''\<rparr>,
          (SchemaProperty_init MetadataSchemaProperty ''sub.b'' [(''type'', VStr ''string'')])
          \<lparr>required := False, processed := True\<rparr>)
   \<and> process_cli_option env0 False \<lparr>argv = [], argv_mappings = [], log_level = ''INFO''\<rparr>
     ((SchemaProperty_init SchemaProperty ''name'' [(''type'', VStr ''string'')])\<lparr>required := True\<rparr>)
   = Inl (SystemExit (Some (RequiredParameter ''--name'')) True 1)
   \<and> sub_option_prefix
       ((SchemaProperty_init MetadataSchemaProperty ''sub.b'' [(''type'', VStr ''string'')])\<lparr>required := True\<rparr>)
     = ''--sub.''"
proof -
  let ?b = "(SchemaProperty_init MetadataSchemaProperty ''sub.b'' [(''type'', VStr ''string'')])\<lparr>required := True\<rparr>"
  let ?n = "(SchemaProperty_init SchemaProperty ''name'' [(''type'', VStr ''string'')])\<lparr>required := True\<rparr>"
  let ?given = "\<lparr>argv = [''--sub.a=5''], argv_mappings = [(''--sub.a'', VStr ''5'')], log_level = ''INFO''\<rparr>"
  let ?none = "\<lparr>argv = [], argv_mappings = [], log_level = ''INFO''\<rparr>"
  have b: "\<not> processed ?b" "required ?b" "value ?b = VNone" "name ?b = Some ''sub.b''"
    "cli_option ?b = ''--sub.b''" "one_of ?b = None"
    by (simp_all add: SchemaProperty_init_def Option_init_def dict_get_def)
  have n: "\<not> processed ?n" "required ?n" "value ?n = VNone" "name ?n = Some ''name''"
    "cli_option ?n = ''--name''" "one_of ?n = None"
    by (simp_all add: SchemaProperty_init_def Option_init_def dict_get_def)
  have p: "sub_option_prefix ?b = ''--sub.''"
    by (simp add: sub_option_prefix_def rsplit_head_def b(5))
  have 1: "process_cli_option env0 False ?given ?b = Inl (SystemExit (Some (RequiredParameter ''--sub.b'')) True 1)"
    using dotted_sub_object_exemption [of ?b False ?given "''sub.b''" env0] b
    by (simp add: p startswith_def)
  have 2: "process_cli_option env0 False ?none ?b = Inr (?none, ?b\<lparr>required := False, processed := True\<rparr>)"
    using dotted_sub_object_exemption [of ?b False ?none "''sub.b''" env0] b
    by simp
  have 3: "process_cli_option env0 False ?none ?n = Inl (SystemExit (Some (RequiredParameter ''--name'')) True 1)"
    using dotted_sub_object_exemption [of ?n False ?none "''name''" env0] n
    by simp
  show ?thesis using 1 2 3 p by simp
qed

lemma remove_argv_entry_text:
  assumes "k \<in> set (map fst (argv_mappings self))"
    and "dict_get (argv_mappings self) k = VNone \<or> (\<exists>s. dict_get (argv_mappings self) k = VStr s)"
  shows "\<exists>self'. remove_argv_entry E self k = Inr self'"
  using assms by (auto simp: remove_argv_entry_def Let_def)

text \<open>
  C6. Flag semantics. For an instance of \<open>Flag\<close> that is not yet processed: when its
  token is in the mapping with a text or no text after \<open>=\<close>, resolution succeeds and the
  value is \<open>not default_value\<close>, whatever the text; when the token is absent and the flag
  is not a required one without a value, resolution succeeds and changes nothing but
  \<open>processed\<close>; and whenever resolution returns, \<open>set_value\<close> has not been invoked, the
  value is \<open>not default_value\<close> for a present token and unchanged for an absent one. A
  flag as \<open>Flag.__init__\<close> builds it has its value equal to its default.
\<close>

theorem flag_semantics:
  assumes "cls flag = Flag"
    and "\<not> processed flag"
    and "\<not> (check_help \<and> has_help self)"
  shows "(cli_option flag \<in> set (map fst (argv_mappings self)) \<and>
            (dict_get (argv_mappings self) (cli_option flag) = VNone \<or>
             (\<exists>s. dict_get (argv_mappings self) (cli_option flag) = VStr s))
          \<longrightarrow> (\<exists>self'. process_cli_option E check_help self flag =
                 Inr (self', flag\<lparr>value := VBool (\<not> truthy E (default_value flag)),
                                  processed := True\<rparr>)))
       \<and> (cli_option flag \<notin> set (map fst (argv_mappings self)) \<and>
            \<not> (required flag \<and> value flag = VNone)
          \<longrightarrow> process_cli_option E check_help self flag = Inr (self, flag\<lparr>processed := True\<rparr>))
       \<and> (\<forall>self' flag'. process_cli_option E check_help self flag = Inr (self', flag') \<longrightarrow>
            set_value_calls flag' = set_value_calls flag \<and>
            value flag' = (if cli_option flag \<in> set (map fst (argv_mappings self))
                           then VBool (\<not> truthy E (default_value flag)) else value flag))
       \<and> value (Flag_init tok nm descr dflt oneof req) = default_value (Flag_init tok nm descr dflt oneof req)
       \<and> cls (Flag_init tok nm descr dflt oneof req) = Flag
       \<and> \<not> processed (Flag_init tok nm descr dflt oneof req)"
proof -
  have nh: "(check_help \<and> has_help self) = False" using assms(3) by simp
  have present: "process_cli_option E check_help self flag =
      (case remove_argv_entry E self (cli_option flag) of
         Inl e \<Rightarrow> Inl e
       | Inr self' \<Rightarrow>
           Inr (self', flag\<lparr>value := VBool (\<not> truthy E (default_value flag)), processed := True\<rparr>))"
    if "cli_option flag \<in> set (map fst (argv_mappings self))"
    using that assms(1,2) by (simp add: process_cli_option_def Let_def nh)
  have absent: "process_cli_option E check_help self flag =
      (case required_value_is_missing self flag of
         Inl e \<Rightarrow> Inl e
       | Inr (missing, o1) \<Rightarrow>
           if missing then
             (case one_of o1 of
                None \<Rightarrow> Inl (log_and_exit (Some (RequiredParameter (cli_option o1))) 1 True)
              | Some l \<Rightarrow>
                  Inl (log_and_exit (Some (RequiredParameterOneOf (cli_option o1) l)) 1 True))
           else Inr (self, o1\<lparr>processed := True\<rparr>))"
    if "cli_option flag \<notin> set (map fst (argv_mappings self))"
    using that assms(2) by (simp add: process_cli_option_def Let_def nh)
  have a: "\<exists>self'. process_cli_option E check_help self flag =
                 Inr (self', flag\<lparr>value := VBool (\<not> truthy E (default_value flag)),
                                  processed := True\<rparr>)"
    if pres: "cli_option flag \<in> set (map fst (argv_mappings self))"
      and raw: "dict_get (argv_mappings self) (cli_option flag) = VNone \<or>
             (\<exists>s. dict_get (argv_mappings self) (cli_option flag) = VStr s)"
  proof -
    obtain self' where "remove_argv_entry E self (cli_option flag) = Inr self'"
      using remove_argv_entry_text[OF pres raw] by blast
    then show ?thesis using present[OF pres] by simp
  qed
  have b: "process_cli_option E check_help self flag = Inr (self, flag\<lparr>processed := True\<rparr>)"
    if "cli_option flag \<notin> set (map fst (argv_mappings self))"
      and "\<not> (required flag \<and> value flag = VNone)"
    using absent[OF that(1)] that(2) by (auto simp: required_value_is_missing_def)
  have c: "set_value_calls flag' = set_value_calls flag \<and>
            value flag' = (if cli_option flag \<in> set (map fst (argv_mappings self))
                           then VBool (\<not> truthy E (default_value flag)) else value flag)"
    if run: "process_cli_option E check_help self flag = Inr (self', flag')" for self' flag'
  proof (cases "cli_option flag \<in> set (map fst (argv_mappings self))")
    case True
    then show ?thesis using run present[OF True] by (auto split: sum.splits)
  next
    case False
    then show ?thesis using run absent[OF False]
      by (auto simp: required_value_is_missing_def split: sum.splits if_splits option.splits)
  qed
  have d: "value (Flag_init tok nm descr dflt oneof req) = default_value (Flag_init tok nm descr dflt oneof req)
       \<and> cls (Flag_init tok nm descr dflt oneof req) = Flag
       \<and> \<not> processed (Flag_init tok nm descr dflt oneof req)"
    by (simp add: Flag_init_def Option_init_def)
  show ?thesis using a b c d by blast
qed

theorem flag_semantics_witness:
  "process_cli_option env0 False
     \<lparr>argv = [''--json=false''], argv_mappings = [(''--json'', VStr ''false'')], log_level = ''INFO''\<rparr>
     (Flag_init ''--json'' (Some ''json'') VNone (VBool False) None False)
   = Inr (\<lparr>argv = [], argv_mappings = [], log_level = ''INFO''\<rparr>,
          (Flag_init ''--json'' (Some ''json'') VNone (VBool False) None False)
          \<lparr>value := VBool True, processed := True\<rparr>)
   \<and> process_cli_option env0 False \<lparr>argv = [], argv_mappings = [], log_level = ''INFO''\<rparr>
     (Flag_init ''--json'' (Some ''json'') VNone (VBool False) None False)
   = Inr (\<lparr>argv = [], argv_mappings = [], log_level = ''INFO''\<rparr>,
          (Flag_init ''--json'' (Some ''json'') VNone (VBool False) None False)\<lparr>processed := True\<rparr>)"
proof -
  let ?flag = "Flag_init ''--json'' (Some ''json'') VNone (VBool False) None False"
  let ?given = "\<lparr>argv = [''--json=false''], argv_mappings = [(''--json'', VStr ''false'')], log_level = ''INFO''\<rparr>"
  let ?none = "\<lparr>argv = [], argv_mappings = [], log_level = ''INFO''\<rparr>"
  have f: "cls ?flag = Flag" "\<not> processed ?flag" "cli_option ?flag = ''--json''"
    "default_value ?flag = VBool False" "value ?flag = VBool False"
    by (simp_all add: Flag_init_def Option_init_def)
  have h: "\<not> (False \<and> has_help ?given)" "\<not> (False \<and> has_help ?none)" by simp_all
  have rem: "remove_argv_entry env0 ?given ''--json'' = Inr ?none"
    by (simp add: remove_argv_entry_def dict_get_def Let_def)
  obtain self' where 1: "process_cli_option env0 False ?given ?flag =
      Inr (self', ?flag\<lparr>value := VBool True, processed := True\<rparr>)"
    using flag_semantics [where flag = ?flag and check_help = False and self = ?given and E = env0
        and tok = "''--json''" and nm = "Some ''json''" and descr = VNone and dflt = "VBool False"
        and oneof = None and req = False, OF f(1,2) h(1)] f
    by (auto simp: dict_get_def)
  have "self' = ?none"
    using 1 rem f by (simp add: process_cli_option_def has_help_def Let_def)
  moreover have "process_cli_option env0 False ?none ?flag = Inr (?none, ?flag\<lparr>processed := True\<rparr>)"
    using flag_semantics [where flag = ?flag and check_help = False and self = ?none and E = env0
        and tok = "''--json''" and nm = "Some ''json''" and descr = VNone and dflt = "VBool False"
        and oneof = None and req = False, OF f(1,2) h(2)] f
    by simp
  ultimately show ?thesis using 1 by simp
qed




section \<open>The option resolver: the batch\<close>

text \<open>
  C9. Batch resolution. When no help token is in the mapping and every option of the set
  has been resolved, a non-empty argument vector ends the run: the unexpected arguments
  are reported, the help is displayed and the exit status is 1. With an empty vector the
  batch returns.
\<close>

theorem batch_resolution_leftover:
  assumes "\<not> has_help self"
    and "process_each E self cli_options = Inr (self', options')"
  shows "process_cli_options E self cli_options =
           (if argv self' \<noteq> [] then
              Inl (SystemExit (Some (UnexpectedArguments (argv self'))) True 1)
            else Inr (self', options'))"
  using assms by (simp add: process_cli_options_def log_and_exit_def)

theorem batch_resolution_leftover_witness:
  "AppBase_init env0 [''--unknown=1'']
     = Inr \<lparr>argv = [''--unknown=1''], argv_mappings = [(''--unknown'', VStr ''1'')], log_level = ''INFO''\<rparr>
   \<and> process_cli_options env0
       \<lparr>argv = [''--unknown=1''], argv_mappings = [(''--unknown'', VStr ''1'')], log_level = ''INFO''\<rparr>
       [Option_init CliOption ''--name'' (Some ''name'') VNone VNone None False (VStr ''string'')]
     = Inl (SystemExit (Some (UnexpectedArguments [''--unknown=1''])) True 1)
   \<and> process_cli_options env0
       \<lparr>argv = [''--name=foo''], argv_mappings = [(''--name'', VStr ''foo'')], log_level = ''INFO''\<rparr>
       [Option_init CliOption ''--name'' (Some ''name'') VNone VNone None False (VStr ''string'')]
     = Inr (\<lparr>argv = [], argv_mappings = [], log_level = ''INFO''\<rparr>,
            [(Option_init CliOption ''--name'' (Some ''name'') VNone VNone None False (VStr ''string''))
             \<lparr>value := VStr ''foo'', processed := True, set_value_calls := 1\<rparr>])"
proof -
  let ?o = "Option_init CliOption ''--name'' (Some ''name'') VNone VNone None False (VStr ''string'')"
  let ?u = "\<lparr>argv = [''--unknown=1''], argv_mappings = [(''--unknown'', VStr ''1'')], log_level = ''INFO''\<rparr>"
  let ?f = "\<lparr>argv = [''--name=foo''], argv_mappings = [(''--name'', VStr ''foo'')], log_level = ''INFO''\<rparr>"
  let ?e = "\<lparr>argv = [], argv_mappings = [], log_level = ''INFO''\<rparr>"
  have init: "AppBase_init env0 [''--unknown=1''] = Inr ?u"
    by (simp add: AppBase_init_def get_argv_mappings_def split_arg_def Let_def)
  have hu: "\<not> has_help ?u" and hf: "\<not> has_help ?f"
    by (simp_all add: has_help_def)
  have eu: "process_each env0 ?u [?o] = Inr (?u, [?o\<lparr>processed := True\<rparr>])"
    by (simp add: process_cli_option_def Option_init_def has_help_def
        required_value_is_missing_def Let_def)
  have ef: "process_each env0 ?f [?o]
      = Inr (?e, [?o\<lparr>value := VStr ''foo'', processed := True, set_value_calls := 1\<rparr>])"
    by (simp add: process_cli_option_def Option_init_def has_help_def set_value_def
        remove_argv_entry_def dict_get_def Let_def)
  show ?thesis
    using init batch_resolution_leftover [OF hu eu] batch_resolution_leftover [OF hf ef]
    by simp
qed

section \<open>The schema compiler: required properties\<close>








section \<open>The argument ingestor and the consumption of tokens\<close>

text \<open>
  C3. Loading \<open>{"metadata": {"count": 3}, "display_name": "x"}\<close> through
  \<open>--file=meta.json\<close> gives the entries \<open>--name\<close> and \<open>--count\<close> and no entry for the
  top-level key \<open>display_name\<close>: the loop returns from its first dict-valued item, so that
  the result never depends on the items after it.
\<close>

theorem load_json_stops_at_first_object:
  "load_argv_mappings_from_json ((k, VDict d) # items) prefix mappings
     = load_argv_mappings_from_json [(k, VDict d)] prefix mappings
   \<and> AppBase_init env0 [''--file=meta.json'']
     = Inr \<lparr>argv = [], argv_mappings = [(''--name'', VStr ''meta''), (''--count'', VInt 3)],
            log_level = ''INFO''\<rparr>
   \<and> map_of [(''--name'', VStr ''meta''), (''--count'', VInt 3)] ''--display_name'' = None"
  by (simp add: AppBase_init_def get_argv_mappings_def split_arg_def
      load_argv_mappings_from_file_def env0_def basename_def Let_def)

text \<open>
  C4. \<open>log_option\<close> holds one token, and \<open>list.remove\<close> deletes one occurrence: with
  \<open>--debug\<close> and \<open>--log-level=DEBUG\<close> together, or with \<open>--debug\<close> twice, a \<open>--debug\<close>
  token is still in the argument vector after ingestion.
\<close>

theorem log_options_left_in_argv:
  "AppBase_init env0 [''--debug'', ''--log-level=DEBUG'']
     = Inr \<lparr>argv = [''--debug''], argv_mappings = [], log_level = ''DEBUG''\<rparr>
   \<and> AppBase_init env0 [''--debug'', ''--debug'']
     = Inr \<lparr>argv = [''--debug''], argv_mappings = [], log_level = ''DEBUG''\<rparr>"
  by (simp add: AppBase_init_def get_argv_mappings_def split_arg_def env0_def Let_def)

text \<open>
  C5. \<open>_remove_argv_entry\<close> rebuilds the token as \<open>name\<close> when the value is falsy, so the
  token \<open>--description=\<close> of a consumed option stays in the argument vector; and of a
  token given twice, one occurrence stays.
\<close>

theorem empty_value_token_left_in_argv:
  "AppBase_init env0 [''--description='']
     = Inr \<lparr>argv = [''--description=''], argv_mappings = [(''--description'', VStr [])],
            log_level = ''INFO''\<rparr>
   \<and> process_cli_option env0 False
       \<lparr>argv = [''--description=''], argv_mappings = [(''--description'', VStr [])],
        log_level = ''INFO''\<rparr>
       (Option_init CliOption ''--description'' (Some ''description'') VNone VNone None False
          (VStr ''string''))
     = Inr (\<lparr>argv = [''--description=''], argv_mappings = [], log_level = ''INFO''\<rparr>,
            (Option_init CliOption ''--description'' (Some ''description'') VNone VNone None False
               (VStr ''string''))
            \<lparr>value := VStr [], processed := True, set_value_calls := 1\<rparr>)
   \<and> process_cli_option env0 False
       \<lparr>argv = [''--tag=a'', ''--tag=a''], argv_mappings = [(''--tag'', VStr ''a'')],
        log_level = ''INFO''\<rparr>
       (Option_init CliOption ''--tag'' (Some ''tag'') VNone VNone None False (VStr ''string''))
     = Inr (\<lparr>argv = [''--tag=a''], argv_mappings = [], log_level = ''INFO''\<rparr>,
            (Option_init CliOption ''--tag'' (Some ''tag'') VNone VNone None False (VStr ''string''))
            \<lparr>value := VStr ''a'', processed := True, set_value_calls := 1\<rparr>)"
  by (simp add: AppBase_init_def get_argv_mappings_def split_arg_def process_cli_option_def
      Option_init_def has_help_def set_value_def remove_argv_entry_def dict_get_def Let_def)

end
